theory Spec2Isabelle
  imports Main
begin

section \<open>Strings and values of the host language\<close>

text \<open>
  The program is TypeScript. A string is modelled as a HOL \<open>string\<close>, one \<open>char\<close> per
  code unit; HOL characters are eight bits wide, so the model covers strings whose code
  units are below 256 (data URLs and base64 payloads are ASCII). A value of type
  \<open>string | null\<close> (or an optional property) is a \<open>string option\<close>. In a condition such a
  value counts as true when it is neither \<open>null\<close>/\<open>undefined\<close> nor the empty string.
\<close>

definition truthy :: "string option \<Rightarrow> bool" where
  "truthy v = (case v of None \<Rightarrow> False | Some s \<Rightarrow> s \<noteq> [])"

text \<open>\<open>s.split(',')\<close>: the pieces of \<open>s\<close> between its commas, all of them. The result is
  never the empty array: a string without a comma gives the one-element array.\<close>

fun split_comma :: "string \<Rightarrow> string list" where
  "split_comma [] = [[]]"
| "split_comma (c # cs) =
     (if c = CHR '','' then [] # split_comma cs
      else (case split_comma cs of
              [] \<Rightarrow> [[c]]
            | p # ps \<Rightarrow> (c # p) # ps))"

text \<open>
  \<open>s.match(/:(.*?);/)\<close>. The dot matches every character but a line terminator (of which
  line feed and carriage return are below 256), and the lazy star stops at the first
  semicolon. \<open>lazy_dots_semicolon\<close> matches \<open>(.*?);\<close> at the head of its argument and gives
  the group; \<open>match_colon_semicolon\<close> tries the colons from the left, as the matcher does,
  and gives group 1 of the leftmost match (\<open>None\<close> is the \<open>null\<close> of no match).
\<close>

definition line_terminator :: "char \<Rightarrow> bool" where
  "line_terminator c = (c = CHR 0x0A \<or> c = CHR 0x0D)"

fun lazy_dots_semicolon :: "string \<Rightarrow> string option" where
  "lazy_dots_semicolon [] = None"
| "lazy_dots_semicolon (c # cs) =
     (if c = CHR '';'' then Some []
      else if line_terminator c then None
      else map_option ((#) c) (lazy_dots_semicolon cs))"

fun match_colon_semicolon :: "string \<Rightarrow> string option" where
  "match_colon_semicolon [] = None"
| "match_colon_semicolon (c # cs) =
     (if c = CHR '':'' then
        (case lazy_dots_semicolon cs of
           Some g \<Rightarrow> Some g
         | None \<Rightarrow> match_colon_semicolon cs)
      else match_colon_semicolon cs)"

text \<open>A thrown value: an \<open>Error\<close> object with its message, or anything that is not an
  instance of \<open>Error\<close>.\<close>

datatype thrown = Error string | NonError

section \<open>The generation client (services/geminiService.ts)\<close>

text \<open>
  The request and the response of \<open>ai.models.generateContent\<close>. Every property the code
  tests for presence is an option. \<open>response.text\<close> is an accessor of the service's
  library, not of this program, so the response carries its value as a field.
\<close>

record inline_data =
  data :: "string option"
  mimeType :: "string option"

record part =
  inlineData :: "inline_data option"
  part_text :: "string option"

record content_t =
  parts :: "part list option"

record candidate =
  content :: "content_t option"

record response =
  candidates :: "candidate list option"
  response_text :: "string option"

record request =
  model :: string
  contents :: "part list"
  responseModalities :: "string list"

text \<open>The call either resolves with a response or rejects with a thrown value.\<close>

datatype service_outcome = Returned response | Threw thrown

text \<open>The loop over \<open>response.candidates[0].content.parts\<close>: the data of the first part
  whose \<open>inlineData\<close> is present with a non-empty \<open>data\<close>.\<close>

fun scan_parts :: "part list \<Rightarrow> string option" where
  "scan_parts [] = None"
| "scan_parts (p # ps) =
     (case inlineData p of
        None \<Rightarrow> scan_parts ps
      | Some i \<Rightarrow> if truthy (data i) then data i else scan_parts ps)"

text \<open>The guard in front of the loop, then the loop: only the first candidate is read.\<close>

definition first_candidate_image :: "response \<Rightarrow> string option" where
  "first_candidate_image r =
     (case candidates r of
        None \<Rightarrow> None
      | Some [] \<Rightarrow> None
      | Some (c0 # _) \<Rightarrow>
          (case content c0 of
             None \<Rightarrow> None
           | Some ct \<Rightarrow> (case parts ct of None \<Rightarrow> None | Some ps \<Rightarrow> scan_parts ps)))"

definition dquote :: char where
  "dquote = CHR 0x22"

definition make_request :: "string \<Rightarrow> string \<Rightarrow> string \<Rightarrow> request" where
  "make_request prompt' base64ImageData mimeType' =
     \<lparr>model = ''gemini-2.5-flash-image-preview'',
      contents =
        [\<lparr>inlineData = Some \<lparr>data = Some base64ImageData, mimeType = Some mimeType'\<rparr>,
          part_text = None\<rparr>,
         \<lparr>inlineData = None, part_text = Some prompt'\<rparr>],
      responseModalities = [''IMAGE'', ''TEXT'']\<rparr>"

definition no_image_message :: string where
  "no_image_message =
     ''No image was generated in the API response. The response may have been blocked or empty.''"

text \<open>The body of the \<open>try\<close> block: what it returns (\<open>Inr\<close>) or throws (\<open>Inl\<close>).\<close>

definition try_block :: "service_outcome \<Rightarrow> thrown + string" where
  "try_block outcome =
     (case outcome of
        Threw e \<Rightarrow> Inl e
      | Returned r \<Rightarrow>
          (case first_candidate_image r of
             Some d \<Rightarrow> Inr d
           | None \<Rightarrow>
               (case response_text r of
                  None \<Rightarrow> Inl (Error no_image_message)
                | Some textResponse \<Rightarrow>
                    if textResponse \<noteq> [] then
                      Inl (Error (''API returned text instead of an image: '' @ [dquote]
                            @ take 100 textResponse @ ''...'' @ [dquote]))
                    else Inl (Error no_image_message))))"

text \<open>
  \<open>editImageWithReference\<close>, with the service as a parameter. Whatever the \<open>try\<close> block
  throws, its own two errors included, reaches the \<open>catch\<close> block, which throws a new
  \<open>Error\<close>. The function makes the one call written here.
\<close>

definition editImageWithReference ::
    "(request \<Rightarrow> service_outcome) \<Rightarrow> string \<Rightarrow> string \<Rightarrow> string \<Rightarrow> thrown + string" where
  "editImageWithReference generateContent prompt' base64ImageData mimeType' =
     (case try_block (generateContent (make_request prompt' base64ImageData mimeType')) of
        Inr d \<Rightarrow> Inr d
      | Inl (Error m) \<Rightarrow> Inl (Error (''Gemini API Error: '' @ m))
      | Inl NonError \<Rightarrow>
          Inl (Error ''An unknown error occurred while communicating with the Gemini API.''))"

section \<open>The application shell (App.tsx)\<close>

text \<open>
  A file handle: the program reads its size only. The shell's state is the five state
  variables of the component and the file-input control behind \<open>fileInputRef\<close>:
  \<open>None\<close> when the reference is \<open>null\<close> (the control is not rendered), otherwise the files
  selected in the control (assigning the empty string to its \<open>value\<close> empties them).
  \<open>previewUrl\<close> is \<open>reader.result\<close>, which is \<open>null\<close> after a failed read.
\<close>

record file_handle =
  file_name :: string
  file_size :: nat

record reference =
  ref_file :: file_handle
  previewUrl :: "string option"

record app =
  prompt :: string
  referenceImage :: "reference option"
  generatedImage :: "string option"
  isLoading :: bool
  error :: "string option"
  fileInputRef :: "file_handle list option"

definition INITIAL_PROMPT :: string where
  "INITIAL_PROMPT = ''A beautiful young woman with long dark hair, featuring the exact facial features and structure from the reference image. She is wearing a loose-fitting, oversized orange linen button-down shirt with the top buttons open, and matching wide-leg pink linen trousers. She is seated gracefully on a dark wooden backless stool, facing slightly towards the camera. Her left leg is bent at the knee with her foot flat on the floor, and her right leg is crossed over her left. Her left arm is casually draped over her right knee, with her fingers gently intertwined, and her right arm is resting by her side, with her hand on her lap. She has a subtle, engaging gaze directly at the viewer. The background is a plain, textured, dark olive green or earthy brown wall, creating a simple, studio-like setting. The lighting is soft and diffused from the front-side, highlighting her features and the texture of her clothing, creating gentle shadows and even illumination. The photo is a realistic, high-resolution three-quarter body shot, with a slightly off-center composition and a soft background blur as if taken with a 85mm prime lens at f/2.8.''"

text \<open>
  A handler is modelled by the calls it makes on the state, in order: the setters of the
  state variables, and the assignment to the file-input control. The setter calls of one
  synchronous run of a handler are applied together, as one batch: the state of the
  component is the old one until the run ends, and then the one \<open>perform\<close> gives. No state
  of the component lies between two calls of the same run.
\<close>

datatype effect =
    SetPrompt string
  | SetReferenceImage "reference option"
  | SetGeneratedImage "string option"
  | SetIsLoading bool
  | SetError "string option"
  | ResetFileInput

fun apply_effect :: "effect \<Rightarrow> app \<Rightarrow> app" where
  "apply_effect (SetPrompt v) s = s\<lparr>prompt := v\<rparr>"
| "apply_effect (SetReferenceImage v) s = s\<lparr>referenceImage := v\<rparr>"
| "apply_effect (SetGeneratedImage v) s = s\<lparr>generatedImage := v\<rparr>"
| "apply_effect (SetIsLoading v) s = s\<lparr>isLoading := v\<rparr>"
| "apply_effect (SetError v) s = s\<lparr>error := v\<rparr>"
| "apply_effect ResetFileInput s = s\<lparr>fileInputRef := Some []\<rparr>"

fun perform :: "effect list \<Rightarrow> app \<Rightarrow> app" where
  "perform [] s = s"
| "perform (e # es) s = perform es (apply_effect e s)"

subsection \<open>handleImageChange and the reader's callbacks\<close>

text \<open>
  \<open>handleImageChange\<close> reads \<open>event.target.files?.[0]\<close>. The second component of the
  result is the file for which a reader was started with \<open>readAsDataURL\<close>, if any.
  \<open>onloadend\<close> and \<open>onerror\<close> are the two callbacks set on that reader.
\<close>

definition handleImageChange :: "file_handle list \<Rightarrow> effect list \<times> file_handle option" where
  "handleImageChange files =
     (case files of
        [] \<Rightarrow> ([], None)
      | f # _ \<Rightarrow>
          if file_size f > 4 * 1024 * 1024 then
            ([SetError (Some ''File is too large. Please upload an image under 4MB.'')], None)
          else ([], Some f))"

definition onloadend :: "file_handle \<Rightarrow> string option \<Rightarrow> effect list" where
  "onloadend f result =
     [SetReferenceImage (Some \<lparr>ref_file = f, previewUrl = result\<rparr>), SetError None]"

definition onerror :: "effect list" where
  "onerror = [SetError (Some ''Failed to read the image file.'')]"

subsection \<open>clearReferenceImage\<close>

definition clearReferenceImage :: "app \<Rightarrow> effect list" where
  "clearReferenceImage s =
     SetReferenceImage None # (if fileInputRef s \<noteq> None then [ResetFileInput] else [])"

subsection \<open>handleGenerateClick\<close>

text \<open>
  The arguments of a call of \<open>editImageWithReference\<close>.
\<close>

record client_call =
  arg_prompt :: string
  arg_base64ImageData :: string
  arg_mimeType :: string

text \<open>
  Reading \<open>split\<close> of \<open>null\<close> throws a \<open>TypeError\<close>, an \<open>Error\<close> whose message is the
  engine's; the text below is V8's.
\<close>

definition null_split_message :: string where
  "null_split_message = ''Cannot read properties of null (reading 'split')''"

text \<open>The \<open>try\<close> block up to the call of the client: the arguments of the call, or what
  was thrown before it.\<close>

definition parse_previewUrl :: "string option \<Rightarrow> thrown + string \<times> string" where
  "parse_previewUrl url =
     (case url of
        None \<Rightarrow> Inl (Error null_split_message)
      | Some u \<Rightarrow>
          (case split_comma u of
             [p0, p1] \<Rightarrow>
               (case match_colon_semicolon p0 of
                  None \<Rightarrow> Inl (Error ''Could not determine image MIME type.'')
                | Some g \<Rightarrow>
                    if g = [] then Inl (Error ''Could not determine image MIME type.'')
                    else Inr (p1, g))
           | _ \<Rightarrow> Inl (Error ''Invalid image data URL format.'')))"

text \<open>The \<open>catch\<close> block's message.\<close>

definition message_of :: "thrown \<Rightarrow> string" where
  "message_of err = (case err of Error m \<Rightarrow> m | NonError \<Rightarrow> ''An unknown error occurred.'')"

text \<open>
  \<open>handleGenerateClick\<close> is asynchronous. \<open>handleGenerateClick\<close> below is the part that
  runs at the click, up to the \<open>await\<close>: its calls on the state, and the call of the client
  it leaves pending, if any. When something is thrown before the call, the \<open>catch\<close> and
  \<open>finally\<close> blocks run at once. \<open>handleGenerateClick_resume\<close> is the part that runs when
  the pending call has settled: the rest of the \<open>try\<close> block or the \<open>catch\<close> block, then
  the \<open>finally\<close> block.
\<close>

definition handleGenerateClick :: "app \<Rightarrow> effect list \<times> client_call option" where
  "handleGenerateClick s =
     (case referenceImage s of
        None \<Rightarrow> ([SetError (Some ''Please upload a reference image first.'')], None)
      | Some r \<Rightarrow>
          (case parse_previewUrl (previewUrl r) of
             Inl err \<Rightarrow>
               ([SetIsLoading True, SetError None, SetGeneratedImage None,
                 SetError (Some (message_of err)),
                 SetIsLoading False], None)
           | Inr (base64Data, mimeType') \<Rightarrow>
               ([SetIsLoading True, SetError None, SetGeneratedImage None],
                Some \<lparr>arg_prompt = prompt s, arg_base64ImageData = base64Data,
                      arg_mimeType = mimeType'\<rparr>)))"

definition handleGenerateClick_resume :: "thrown + string \<Rightarrow> effect list" where
  "handleGenerateClick_resume settled =
     (case settled of
        Inr resultBase64 \<Rightarrow>
          [SetGeneratedImage (Some (''data:image/jpeg;base64,'' @ resultBase64)),
           SetIsLoading False]
      | Inl err \<Rightarrow> [SetError (Some (message_of err)), SetIsLoading False])"

subsection \<open>What is rendered\<close>

text \<open>The four blocks of the output panel, each with the condition it is rendered under.\<close>

definition shows_progress :: "app \<Rightarrow> bool" where
  "shows_progress s = isLoading s"

definition shows_error :: "app \<Rightarrow> bool" where
  "shows_error s = truthy (error s)"

definition shows_image :: "app \<Rightarrow> bool" where
  "shows_image s = (\<not> isLoading s \<and> \<not> truthy (error s) \<and> truthy (generatedImage s))"

definition shows_placeholder :: "app \<Rightarrow> bool" where
  "shows_placeholder s = (\<not> isLoading s \<and> \<not> truthy (error s) \<and> \<not> truthy (generatedImage s))"

section \<open>The page as a transition system\<close>

text \<open>
  The page runs one handler at a time. Between two handlers the component is rendered
  from the state, and a handler sees the state of the last rendering. Besides the state
  of the shell, a configuration holds what is pending: the readers started by
  \<open>readAsDataURL\<close> and the calls of the client not yet settled.

  The file-input control is rendered exactly when there is no reference image; a
  control that appears is a new one, with no file selected.
\<close>

record config =
  ui :: app
  readers :: "file_handle list"
  inflight :: "client_call list"

definition initial :: config where
  "initial =
     \<lparr>ui = \<lparr>prompt = INITIAL_PROMPT, referenceImage = None, generatedImage = None,
            isLoading = False, error = None, fileInputRef = Some []\<rparr>,
      readers = [], inflight = []\<rparr>"

definition render_ref :: "app \<Rightarrow> app" where
  "render_ref s =
     s\<lparr>fileInputRef :=
         (if referenceImage s = None then
            (case fileInputRef s of None \<Rightarrow> Some [] | Some fs \<Rightarrow> Some fs)
          else None)\<rparr>"

definition react :: "effect list \<Rightarrow> config \<Rightarrow> config" where
  "react es c = c\<lparr>ui := render_ref (perform es (ui c))\<rparr>"

text \<open>
  The events, each enabled when the element it comes from is rendered and not disabled:
  \<^item> \<open>EditPrompt\<close>: the text area changes (always rendered);
  \<^item> \<open>SelectFiles\<close>: the user selects files in the file-input control (rendered when
    there is no reference image); the control holds them and \<open>handleImageChange\<close> runs;
  \<^item> \<open>ReaderLoaded\<close>: a pending reader succeeds; \<open>loadend\<close> is fired with the data URL
    as \<open>reader.result\<close>;
  \<^item> \<open>ReaderFailed\<close>: a pending reader fails; \<open>error\<close> is fired, then \<open>loadend\<close> with
    \<open>reader.result\<close> being \<open>null\<close>;
  \<^item> \<open>ClickClear\<close>: the button on the preview (rendered when there is a reference image);
  \<^item> \<open>ClickGenerate\<close>: the generate button, whose \<open>disabled\<close> attribute is
    \<open>isLoading || !referenceImage\<close>;
  \<^item> \<open>ClientSettled\<close>: the service answers a pending call, and the handler that awaits
    \<open>editImageWithReference\<close> resumes.
  \<open>step\<close> gives \<open>None\<close> for an event that is not enabled.
\<close>

text \<open>
  A run of \<open>handleGenerateClick\<close> on a configuration, whatever the state of the button: the
  batch of its setter calls is applied and the call of the client it makes, if any,
  becomes pending. The button runs it when it is enabled; \<open>step\<close> below has the guard.
\<close>

definition invoke_generate :: "config \<Rightarrow> config" where
  "invoke_generate c =
     react (fst (handleGenerateClick (ui c)))
       (c\<lparr>inflight := inflight c @ (case snd (handleGenerateClick (ui c)) of
                                      None \<Rightarrow> [] | Some call \<Rightarrow> [call])\<rparr>)"

datatype event =
    EditPrompt string
  | SelectFiles "file_handle list"
  | ReaderLoaded file_handle string
  | ReaderFailed file_handle
  | ClickClear
  | ClickGenerate
  | ClientSettled client_call service_outcome

fun step :: "event \<Rightarrow> config \<Rightarrow> config option" where
  "step (EditPrompt v) c = Some (react [SetPrompt v] c)"
| "step (SelectFiles fs) c =
     (if fileInputRef (ui c) = None then None
      else
        Some (react (fst (handleImageChange fs))
               (c\<lparr>ui := (ui c)\<lparr>fileInputRef := Some fs\<rparr>,
                  readers := readers c @ (case snd (handleImageChange fs) of
                                            None \<Rightarrow> [] | Some f \<Rightarrow> [f])\<rparr>)))"
| "step (ReaderLoaded f url) c =
     (if f \<in> set (readers c) then
        Some (react (onloadend f (Some url)) (c\<lparr>readers := remove1 f (readers c)\<rparr>))
      else None)"
| "step (ReaderFailed f) c =
     (if f \<in> set (readers c) then
        Some (react (onerror @ onloadend f None) (c\<lparr>readers := remove1 f (readers c)\<rparr>))
      else None)"
| "step ClickClear c =
     (if referenceImage (ui c) = None then None
      else Some (react (clearReferenceImage (ui c)) c))"
| "step ClickGenerate c =
     (if isLoading (ui c) \<or> referenceImage (ui c) = None then None
      else Some (invoke_generate c))"
| "step (ClientSettled call outcome) c =
     (if call \<in> set (inflight c) then
        Some (react
               (handleGenerateClick_resume
                 (editImageWithReference (\<lambda>_. outcome)
                   (arg_prompt call) (arg_base64ImageData call) (arg_mimeType call)))
               (c\<lparr>inflight := remove1 call (inflight c)\<rparr>))
      else None)"

fun run :: "event list \<Rightarrow> config \<Rightarrow> config option" where
  "run [] c = Some c"
| "run (e # es) c = (case step e c of None \<Rightarrow> None | Some c' \<Rightarrow> run es c')"

section \<open>Notions of the specification\<close>

text \<open>A part that passes the test of the loop: its \<open>inlineData\<close> is present and holds a
  non-empty \<open>data\<close>.\<close>

definition carries_image :: "part \<Rightarrow> bool" where
  "carries_image p = (case inlineData p of None \<Rightarrow> False | Some i \<Rightarrow> truthy (data i))"

text \<open>The success condition in the words of the specification: some candidate, whichever
  its position, has such a part among its content parts.\<close>

definition spec_success_condition :: "response \<Rightarrow> bool" where
  "spec_success_condition r =
     (case candidates r of
        None \<Rightarrow> False
      | Some cs \<Rightarrow>
          list_ex
            (\<lambda>c. case content c of
                   None \<Rightarrow> False
                 | Some ct \<Rightarrow>
                     (case parts ct of None \<Rightarrow> False | Some ps \<Rightarrow> list_ex carries_image ps))
            cs)"

text \<open>A response with an inline-data part: some part of some candidate has \<open>inlineData\<close>,
  whatever it holds.\<close>

definition has_inline_part :: "response \<Rightarrow> bool" where
  "has_inline_part r =
     (case candidates r of
        None \<Rightarrow> False
      | Some cs \<Rightarrow>
          list_ex
            (\<lambda>c. case content c of
                   None \<Rightarrow> False
                 | Some ct \<Rightarrow>
                     (case parts ct of
                        None \<Rightarrow> False
                      | Some ps \<Rightarrow> list_ex (\<lambda>p. inlineData p \<noteq> None) ps))
            cs)"

text \<open>Splitting at the first comma, in the words of the specification: the text before
  the first comma and the text after it, or the whole string when it has no comma.\<close>

definition spec_split_first_comma :: "string \<Rightarrow> string list" where
  "spec_split_first_comma u =
     (if CHR '','' \<in> set u then
        [takeWhile (\<lambda>c. c \<noteq> CHR '','') u, tl (dropWhile (\<lambda>c. c \<noteq> CHR '','') u)]
      else [u])"

text \<open>The events that settle a pending call of the client.\<close>

fun settles :: "event \<Rightarrow> bool" where
  "settles (ClientSettled _ _) = True"
| "settles _ = False"

text \<open>Two invariants of the page, used in the proofs below. The loading flag is set
  exactly while a call is pending, and at most one is. While a call is pending no result
  is stored and the error, if any, is the one of a file above the limit; otherwise the
  error and the result are not both set, unless the error is that one.\<close>

definition loading_inv :: "config \<Rightarrow> bool" where
  "loading_inv c = (isLoading (ui c) = (inflight c \<noteq> []) \<and> length (inflight c) \<le> 1)"

definition exclusive_inv :: "config \<Rightarrow> bool" where
  "exclusive_inv c =
     (loading_inv c
      \<and> (inflight c \<noteq> [] \<longrightarrow>
           generatedImage (ui c) = None
         \<and> (error (ui c) = None
            \<or> error (ui c) = Some ''File is too large. Please upload an image under 4MB.''))
      \<and> (error (ui c) = None \<or> generatedImage (ui c) = None
         \<or> error (ui c) = Some ''File is too large. Please upload an image under 4MB.''))"

section \<open>Properties of the generation client\<close>

lemma scan_parts_first:
  assumes "list_all (\<lambda>x. \<not> carries_image x) pre"
    and "inlineData q = Some i" and "data i = Some d" and "d \<noteq> []"
  shows "scan_parts (pre @ q # post) = Some d"
  using assms
  by (induction pre) (auto simp: carries_image_def truthy_def split: option.splits)

lemma scan_parts_no_inline:
  "\<not> list_ex (\<lambda>p. inlineData p \<noteq> None) ps \<Longrightarrow> scan_parts ps = None"
  by (induction ps) auto

lemma no_inline_part_no_image:
  "\<not> has_inline_part r \<Longrightarrow> first_candidate_image r = None"
  by (auto simp: has_inline_part_def first_candidate_image_def scan_parts_no_inline
      split: option.splits list.splits)

text \<open>
  Claim C2, as the code has it: when the content parts of the \<^emph>\<open>first\<close> candidate include a
  part whose inline data has a non-empty payload, \<open>editImageWithReference\<close> succeeds and
  returns the payload of the first such part, in the order of the parts.
\<close>

theorem first_candidate_image_returned:
  assumes "gc (make_request p b m) = Returned r"
    and "candidates r = Some (c0 # cs)" and "content c0 = Some ct"
    and "parts ct = Some (pre @ q # post)"
    and "list_all (\<lambda>x. \<not> carries_image x) pre"
    and "inlineData q = Some i" and "data i = Some d" and "d \<noteq> []"
  shows "editImageWithReference gc p b m = Inr d"
  using assms scan_parts_first[of pre q i d post]
  by (simp add: editImageWithReference_def try_block_def first_candidate_image_def)

theorem first_candidate_image_returned_witness:
  "editImageWithReference
     (\<lambda>_. Returned \<lparr>candidates = Some [\<lparr>content = Some \<lparr>parts = Some
        [\<lparr>inlineData = None, part_text = Some ''Here it is''\<rparr>,
         \<lparr>inlineData = Some \<lparr>data = Some ''QUJD'', mimeType = Some ''image/png''\<rparr>,
           part_text = None\<rparr>,
         \<lparr>inlineData = Some \<lparr>data = Some ''REVG'', mimeType = Some ''image/png''\<rparr>,
           part_text = None\<rparr>]\<rparr>\<rparr>],
        response_text = Some ''Here it is''\<rparr>)
     ''a prompt'' ''AAAA'' ''image/png'' = Inr ''QUJD''"
proof -
  let ?t = "\<lparr>inlineData = None, part_text = Some ''Here it is''\<rparr>"
  let ?i = "\<lparr>data = Some ''QUJD'', mimeType = Some ''image/png''\<rparr>"
  let ?q = "\<lparr>inlineData = Some ?i, part_text = None\<rparr>"
  let ?q' = "\<lparr>inlineData = Some \<lparr>data = Some ''REVG'', mimeType = Some ''image/png''\<rparr>,
              part_text = None\<rparr>"
  let ?ct = "\<lparr>parts = Some ([?t] @ ?q # [?q'])\<rparr>"
  let ?c0 = "\<lparr>content = Some ?ct\<rparr>"
  let ?r = "\<lparr>candidates = Some (?c0 # []), response_text = Some ''Here it is''\<rparr>"
  have "editImageWithReference (\<lambda>_. Returned ?r) ''a prompt'' ''AAAA'' ''image/png''
          = Inr ''QUJD''"
    by (rule first_candidate_image_returned
          [where r = ?r and ?c0.0 = ?c0 and cs = "[]" and ct = ?ct and pre = "[?t]"
             and q = ?q and post = "[?q']" and i = ?i])
       (simp_all add: carries_image_def)
  then show ?thesis by simp
qed

text \<open>
  Claim C2 as the specification words it fails: in the response below the second
  candidate has an inline-data part with the payload \<open>QUJD\<close>, the first candidate has no
  part, and the call fails.
\<close>

theorem later_candidate_counterexample:
  "spec_success_condition
     \<lparr>candidates = Some
        [\<lparr>content = Some \<lparr>parts = Some []\<rparr>\<rparr>,
         \<lparr>content = Some \<lparr>parts = Some
            [\<lparr>inlineData = Some \<lparr>data = Some ''QUJD'', mimeType = Some ''image/png''\<rparr>,
              part_text = None\<rparr>]\<rparr>\<rparr>],
      response_text = None\<rparr>
   \<and> editImageWithReference
       (\<lambda>_. Returned
          \<lparr>candidates = Some
             [\<lparr>content = Some \<lparr>parts = Some []\<rparr>\<rparr>,
              \<lparr>content = Some \<lparr>parts = Some
                 [\<lparr>inlineData = Some \<lparr>data = Some ''QUJD'', mimeType = Some ''image/png''\<rparr>,
                   part_text = None\<rparr>]\<rparr>\<rparr>],
           response_text = None\<rparr>)
       ''a prompt'' ''AAAA'' ''image/png''
     = Inl (Error ''Gemini API Error: No image was generated in the API response. The response may have been blocked or empty.'')"
  by (simp add: spec_success_condition_def carries_image_def truthy_def
      editImageWithReference_def try_block_def first_candidate_image_def no_image_message_def)

text \<open>
  Claim C7: for a response with no inline-data part and a non-empty text,
  \<open>editImageWithReference\<close> fails, and the message, which the shell stores as its error
  when the awaiting handler resumes, holds the first 100 characters of the text (between
  a fixed prefix and a fixed suffix). The generated result is left as it was.
\<close>

theorem text_only_response:
  assumes "gc (make_request p b m) = Returned r"
    and "\<not> has_inline_part r"
    and "response_text r = Some t" and "t \<noteq> []"
  shows "editImageWithReference gc p b m
           = Inl (Error (''Gemini API Error: API returned text instead of an image: ''
                         @ [dquote] @ take 100 t @ ''...'' @ [dquote]))
       \<and> error (perform (handleGenerateClick_resume (editImageWithReference gc p b m)) s)
           = Some (''Gemini API Error: API returned text instead of an image: ''
                   @ [dquote] @ take 100 t @ ''...'' @ [dquote])
       \<and> generatedImage (perform (handleGenerateClick_resume (editImageWithReference gc p b m)) s)
           = generatedImage s"
  using assms no_inline_part_no_image[of r]
  by (simp add: editImageWithReference_def try_block_def handleGenerateClick_resume_def
      message_of_def)

theorem text_only_response_witness:
  "editImageWithReference
     (\<lambda>_. Returned \<lparr>candidates = Some [\<lparr>content = Some \<lparr>parts = Some
        [\<lparr>inlineData = None, part_text = Some ''I cannot draw that.''\<rparr>]\<rparr>\<rparr>],
        response_text = Some ''I cannot draw that.''\<rparr>)
     ''a prompt'' ''AAAA'' ''image/png''
   = Inl (Error (''Gemini API Error: API returned text instead of an image: ''
                 @ [dquote] @ ''I cannot draw that.'' @ ''...'' @ [dquote]))
   \<and> error (perform (handleGenerateClick_resume (editImageWithReference
     (\<lambda>_. Returned \<lparr>candidates = Some [\<lparr>content = Some \<lparr>parts = Some
        [\<lparr>inlineData = None, part_text = Some ''I cannot draw that.''\<rparr>]\<rparr>\<rparr>],
        response_text = Some ''I cannot draw that.''\<rparr>)
     ''a prompt'' ''AAAA'' ''image/png'')) (ui initial))
   = Some (''Gemini API Error: API returned text instead of an image: ''
                 @ [dquote] @ ''I cannot draw that.'' @ ''...'' @ [dquote])"
proof -
  let ?r = "\<lparr>candidates = Some [\<lparr>content = Some \<lparr>parts = Some
        [\<lparr>inlineData = None, part_text = Some ''I cannot draw that.''\<rparr>]\<rparr>\<rparr>],
        response_text = Some ''I cannot draw that.''\<rparr>"
  have b: "\<not> has_inline_part ?r" by (simp add: has_inline_part_def)
  show ?thesis
    using text_only_response
      [where gc = "\<lambda>_. Returned ?r" and p = "''a prompt''" and b = "''AAAA''"
         and m = "''image/png''" and r = ?r and t = "''I cannot draw that.''"
         and s = "ui initial"] b
    by auto
qed

section \<open>Properties of the handlers\<close>

lemma render_ref_fields [simp]:
  "prompt (render_ref s) = prompt s"
  "referenceImage (render_ref s) = referenceImage s"
  "generatedImage (render_ref s) = generatedImage s"
  "isLoading (render_ref s) = isLoading s"
  "error (render_ref s) = error s"
  by (simp_all add: render_ref_def)

lemma react_fields [simp]:
  "ui (react es c) = render_ref (perform es (ui c))"
  "readers (react es c) = readers c"
  "inflight (react es c) = inflight c"
  by (simp_all add: react_def)

text \<open>
  Claim C5: invoked with no reference image, \<open>handleGenerateClick\<close> sets the error
  \<open>Please upload a reference image first.\<close>, leaves no call of the client pending, and
  leaves the prompt, the reference image and the generated result as they were, whatever
  the prompt is.
\<close>

theorem generate_without_reference:
  "referenceImage s = None \<Longrightarrow>
     snd (handleGenerateClick s) = None
   \<and> error (perform (fst (handleGenerateClick s)) s)
       = Some ''Please upload a reference image first.''
   \<and> prompt (perform (fst (handleGenerateClick s)) s) = prompt s
   \<and> referenceImage (perform (fst (handleGenerateClick s)) s) = referenceImage s
   \<and> generatedImage (perform (fst (handleGenerateClick s)) s) = generatedImage s"
  by (simp add: handleGenerateClick_def)

theorem generate_without_reference_witness:
  "referenceImage (ui initial) = None
   \<and> snd (handleGenerateClick (ui initial)) = None
   \<and> error (perform (fst (handleGenerateClick (ui initial))) (ui initial))
       = Some ''Please upload a reference image first.''
   \<and> prompt (perform (fst (handleGenerateClick (ui initial))) (ui initial)) = INITIAL_PROMPT"
  using generate_without_reference [of "ui initial"] by (simp add: initial_def)

text \<open>
  Claim C9: for a file of more than 4 MiB, \<open>handleImageChange\<close> sets the error and starts
  no reader, so no reference image is stored for it, and the reference image is left as
  it was, present or not.
\<close>

theorem oversize_rejected:
  "file_size f > 4 * 1024 * 1024 \<Longrightarrow>
     snd (handleImageChange (f # fs)) = None
   \<and> error (perform (fst (handleImageChange (f # fs))) s)
       = Some ''File is too large. Please upload an image under 4MB.''
   \<and> referenceImage (perform (fst (handleImageChange (f # fs))) s) = referenceImage s"
  by (simp add: handleImageChange_def)

theorem oversize_rejected_witness:
  "file_size \<lparr>file_name = ''big.png'', file_size = 4194305\<rparr> > 4 * 1024 * 1024
   \<and> snd (handleImageChange [\<lparr>file_name = ''big.png'', file_size = 4194305\<rparr>]) = None
   \<and> error (perform (fst (handleImageChange [\<lparr>file_name = ''big.png'', file_size = 4194305\<rparr>]))
        (ui initial)) = Some ''File is too large. Please upload an image under 4MB.''
   \<and> referenceImage (perform (fst (handleImageChange [\<lparr>file_name = ''big.png'', file_size = 4194305\<rparr>]))
        (ui initial)) = None"
  using oversize_rejected [of "\<lparr>file_name = ''big.png'', file_size = 4194305\<rparr>" "[]" "ui initial"]
  by (simp add: initial_def)

text \<open>
  Claim C10: \<open>clearReferenceImage\<close> sets the reference image to absent and, besides the
  file-input control, touches nothing else: the prompt, the error, the generated result
  and the loading flag are as before, and so are the error block and the image block of
  the output panel.
\<close>

theorem clear_frame:
  "referenceImage (perform (clearReferenceImage s) s) = None
   \<and> prompt (perform (clearReferenceImage s) s) = prompt s
   \<and> error (perform (clearReferenceImage s) s) = error s
   \<and> generatedImage (perform (clearReferenceImage s) s) = generatedImage s
   \<and> isLoading (perform (clearReferenceImage s) s) = isLoading s
   \<and> shows_error (perform (clearReferenceImage s) s) = shows_error s
   \<and> shows_image (perform (clearReferenceImage s) s) = shows_image s"
  by (simp add: clearReferenceImage_def shows_error_def shows_image_def)

text \<open>
  Claim C6: with the data URL \<open>data:image/png;base64,AAAA\<close> stored, the parse gives the
  payload \<open>AAAA\<close> and the MIME type \<open>image/png\<close>, and \<open>handleGenerateClick\<close> calls the client
  with the current prompt, that payload and that MIME type; the client sends the three in
  its request.
\<close>

theorem png_data_url_example:
  "parse_previewUrl (Some ''data:image/png;base64,AAAA'') = Inr (''AAAA'', ''image/png'')
   \<and> snd (handleGenerateClick
          (s\<lparr>referenceImage :=
               Some \<lparr>ref_file = f, previewUrl = Some ''data:image/png;base64,AAAA''\<rparr>\<rparr>))
       = Some \<lparr>arg_prompt = prompt s, arg_base64ImageData = ''AAAA'',
                arg_mimeType = ''image/png''\<rparr>
   \<and> contents (make_request (prompt s) ''AAAA'' ''image/png'')
       = [\<lparr>inlineData = Some \<lparr>data = Some ''AAAA'', mimeType = Some ''image/png''\<rparr>,
           part_text = None\<rparr>,
          \<lparr>inlineData = None, part_text = Some (prompt s)\<rparr>]"
  by (simp add: handleGenerateClick_def parse_previewUrl_def line_terminator_def
      make_request_def)

lemma jpeg_prefix_differs:
  assumes "''data:image/jpeg;base64,'' @ p = ''data:'' @ m @ '';base64,'' @ p"
  shows "m = ''image/jpeg''"
proof -
  from assms have "''image/jpeg;base64,'' @ p = (m @ '';base64,'') @ p" by simp
  then have "''image/jpeg'' @ '';base64,'' = m @ '';base64,''"
    using append_same_eq[of "''image/jpeg;base64,''" p "m @ '';base64,''"] by simp
  then show ?thesis using append_same_eq[of "''image/jpeg''" "'';base64,''" m] by simp
qed

text \<open>
  Claim C4: when a pending call settles with a payload returned by the client, the
  generated result stored is \<open>data:image/jpeg;base64,\<close> followed by that payload; when the
  MIME type of the reference image is another one, the result is not the data URL of
  that type.
\<close>

theorem result_is_jpeg_data_url:
  assumes "step (ClientSettled call outcome) c = Some c'"
    and "editImageWithReference (\<lambda>_. outcome) (arg_prompt call) (arg_base64ImageData call)
           (arg_mimeType call) = Inr payload"
  shows "generatedImage (ui c') = Some (''data:image/jpeg;base64,'' @ payload)
       \<and> (arg_mimeType call \<noteq> ''image/jpeg'' \<longrightarrow>
            generatedImage (ui c')
              \<noteq> Some (''data:'' @ arg_mimeType call @ '';base64,'' @ payload))"
proof -
  from assms
  have "ui c' = render_ref (perform (handleGenerateClick_resume (Inr payload)) (ui c))"
    by (auto split: if_splits)
  then have g: "generatedImage (ui c') = Some (''data:image/jpeg;base64,'' @ payload)"
    by (simp add: handleGenerateClick_resume_def)
  show ?thesis using g jpeg_prefix_differs[of payload "arg_mimeType call"] by auto
qed

theorem result_is_jpeg_data_url_witness:
  "map_option (\<lambda>c'. generatedImage (ui c'))
     (step
        (ClientSettled
           \<lparr>arg_prompt = ''a prompt'', arg_base64ImageData = ''AAAA'',
              arg_mimeType = ''image/png''\<rparr>
           (Returned \<lparr>candidates = Some [\<lparr>content = Some \<lparr>parts = Some
              [\<lparr>inlineData = Some \<lparr>data = Some ''QUJD'', mimeType = Some ''image/png''\<rparr>,
                part_text = None\<rparr>]\<rparr>\<rparr>],
              response_text = None\<rparr>))
        \<lparr>ui = \<lparr>prompt = ''a prompt'',
                 referenceImage =
                   Some \<lparr>ref_file = \<lparr>file_name = ''a.png'', file_size = 10\<rparr>,
                          previewUrl = Some ''data:image/png;base64,AAAA''\<rparr>,
                 generatedImage = None, isLoading = True, error = None,
                 fileInputRef = None\<rparr>,
           readers = [],
           inflight = [\<lparr>arg_prompt = ''a prompt'', arg_base64ImageData = ''AAAA'',
                         arg_mimeType = ''image/png''\<rparr>]\<rparr>)
   = Some (Some ''data:image/jpeg;base64,QUJD'')"
proof -
  let ?call = "\<lparr>arg_prompt = ''a prompt'', arg_base64ImageData = ''AAAA'',
                 arg_mimeType = ''image/png''\<rparr>"
  let ?out = "Returned \<lparr>candidates = Some [\<lparr>content = Some \<lparr>parts = Some
              [\<lparr>inlineData = Some \<lparr>data = Some ''QUJD'', mimeType = Some ''image/png''\<rparr>,
                part_text = None\<rparr>]\<rparr>\<rparr>],
              response_text = None\<rparr>"
  let ?c = "\<lparr>ui = \<lparr>prompt = ''a prompt'',
                 referenceImage =
                   Some \<lparr>ref_file = \<lparr>file_name = ''a.png'', file_size = 10\<rparr>,
                          previewUrl = Some ''data:image/png;base64,AAAA''\<rparr>,
                 generatedImage = None, isLoading = True, error = None,
                 fileInputRef = None\<rparr>,
           readers = [], inflight = [?call]\<rparr>"
  obtain c' where st: "step (ClientSettled ?call ?out) ?c = Some c'"
    by simp
  have ed: "editImageWithReference (\<lambda>_. ?out) (arg_prompt ?call)
              (arg_base64ImageData ?call) (arg_mimeType ?call) = Inr ''QUJD''"
    by (simp add: editImageWithReference_def try_block_def first_candidate_image_def
        truthy_def)
  from result_is_jpeg_data_url [OF st ed]
  have "generatedImage (ui c') = Some ''data:image/jpeg;base64,QUJD''"
    by simp
  with st show ?thesis
    by simp
qed

section \<open>Parsing the stored data URL\<close>

lemma split_comma_not_Nil [simp]: "split_comma u \<noteq> []"
  by (induction u) (auto split: list.splits)

lemma length_split_comma: "length (split_comma u) = Suc (count_list u (CHR '',''))"
  by (induction u) (auto split: list.splits)

lemma split_comma_no_comma: "CHR '','' \<notin> set u \<Longrightarrow> split_comma u = [u]"
  by (induction u) (auto split: list.splits)

lemma split_comma_at_first:
  "CHR '','' \<notin> set a \<Longrightarrow> split_comma (a @ CHR '','' # b) = a # split_comma b"
  by (induction a) (auto split: list.splits)

lemma split_comma_one_comma:
  assumes "count_list u (CHR '','') = 1"
  shows "split_comma u
           = [takeWhile (\<lambda>c. c \<noteq> CHR '','') u, tl (dropWhile (\<lambda>c. c \<noteq> CHR '','') u)]"
proof -
  let ?a = "takeWhile (\<lambda>c. c \<noteq> CHR '','') u"
  let ?d = "dropWhile (\<lambda>c. c \<noteq> CHR '','') u"
  from assms have mem: "CHR '','' \<in> set u"
    by (metis count_list_0_iff zero_neq_one)
  then have "?d \<noteq> []" by (simp add: dropWhile_eq_Nil_conv)
  moreover have "hd ?d = CHR '',''" using \<open>?d \<noteq> []\<close> hd_dropWhile[of "\<lambda>c. c \<noteq> CHR '',''" u] by auto
  ultimately have d: "?d = CHR '','' # tl ?d" by (metis list.collapse)
  have u: "u = ?a @ CHR '','' # tl ?d" using d takeWhile_dropWhile_id[of "\<lambda>c. c \<noteq> CHR '',''" u] by metis
  have na: "CHR '','' \<notin> set ?a" by (auto dest: set_takeWhileD)
  have "count_list u (CHR '','') = count_list ?a (CHR '','') + count_list (CHR '','' # tl ?d) (CHR '','')"
    by (subst u) (simp only: count_list_append)
  with assms na have "count_list (tl ?d) (CHR '','') = 0"
    by (simp add: count_list_0_iff)
  then have nb: "CHR '','' \<notin> set (tl ?d)" by (simp add: count_list_0_iff)
  have "split_comma (?a @ CHR '','' # tl ?d) = ?a # split_comma (tl ?d)"
    using na by (rule split_comma_at_first)
  with u nb show ?thesis by (metis split_comma_no_comma)
qed

lemma parse_invalid_iff:
  "(parse_previewUrl (Some u) = Inl (Error ''Invalid image data URL format.''))
     = (length (split_comma u) \<noteq> 2)"
  by (auto simp: parse_previewUrl_def split: list.splits option.splits)

lemma parse_never_NonError: "parse_previewUrl v \<noteq> Inl NonError"
  by (auto simp: parse_previewUrl_def split: list.splits option.splits)

text \<open>
  Claim C3, as the code has it: the stored data URL is split at \<^emph>\<open>every\<close> comma, into one
  part more than it has commas. \<open>handleGenerateClick\<close> ends with the error
  \<open>Invalid image data URL format.\<close> exactly when the split does not give two parts, that
  is, when the URL does not have exactly one comma, and then it leaves no call of the
  client pending. With exactly one comma the two parts are the text before the comma and
  the text after it.
\<close>

theorem invalid_format_iff_not_one_comma:
  assumes "referenceImage s = Some r" and "previewUrl r = Some u"
  shows "(error (perform (fst (handleGenerateClick s)) s) = Some ''Invalid image data URL format.'')
           = (length (split_comma u) \<noteq> 2)
       \<and> length (split_comma u) = Suc (count_list u (CHR '',''))
       \<and> (length (split_comma u) \<noteq> 2 \<longrightarrow> snd (handleGenerateClick s) = None)
       \<and> (length (split_comma u) = 2 \<longrightarrow>
            split_comma u = [takeWhile (\<lambda>c. c \<noteq> CHR '','') u,
                             tl (dropWhile (\<lambda>c. c \<noteq> CHR '','') u)])"
proof -
  have len: "length (split_comma u) = Suc (count_list u (CHR '',''))"
    by (rule length_split_comma)
  have two: "split_comma u = [takeWhile (\<lambda>c. c \<noteq> CHR '','') u,
                              tl (dropWhile (\<lambda>c. c \<noteq> CHR '','') u)]"
    if "length (split_comma u) = 2"
    using that len by (simp add: split_comma_one_comma)
  show ?thesis
  proof (cases "parse_previewUrl (Some u)")
    case (Inl err)
    then obtain m where err: "err = Error m"
      using parse_never_NonError[of "Some u"] by (cases err) auto
    from Inl err assms
    have e: "error (perform (fst (handleGenerateClick s)) s) = Some m"
      and c: "snd (handleGenerateClick s) = None"
      by (simp_all add: handleGenerateClick_def message_of_def)
    from Inl err have "(m = ''Invalid image data URL format.'') = (length (split_comma u) \<noteq> 2)"
      using parse_invalid_iff[of u] by auto
    with e c len two show ?thesis by auto
  next
    case (Inr a)
    then obtain d mt where a: "a = (d, mt)" by (cases a)
    from Inr a assms
    have e: "error (perform (fst (handleGenerateClick s)) s) = None"
      by (simp add: handleGenerateClick_def)
    from Inr have "length (split_comma u) = 2"
      using parse_invalid_iff[of u] by auto
    with e len two show ?thesis by auto
  qed
qed

theorem invalid_format_iff_not_one_comma_witness:
  "error (perform
       (fst (handleGenerateClick
          ((ui initial)\<lparr>referenceImage :=
             Some \<lparr>ref_file = \<lparr>file_name = ''a.png'', file_size = 10\<rparr>,
                    previewUrl = Some ''data:image/png;base64''\<rparr>\<rparr>)))
       ((ui initial)\<lparr>referenceImage :=
          Some \<lparr>ref_file = \<lparr>file_name = ''a.png'', file_size = 10\<rparr>,
                 previewUrl = Some ''data:image/png;base64''\<rparr>\<rparr>))
     = Some ''Invalid image data URL format.''
   \<and> snd (handleGenerateClick
         ((ui initial)\<lparr>referenceImage :=
            Some \<lparr>ref_file = \<lparr>file_name = ''a.png'', file_size = 10\<rparr>,
                   previewUrl = Some ''data:image/png;base64''\<rparr>\<rparr>)) = None
   \<and> split_comma ''data:image/png;base64,AAAA'' = [''data:image/png;base64'', ''AAAA'']"
  using invalid_format_iff_not_one_comma
    [of "(ui initial)\<lparr>referenceImage :=
           Some \<lparr>ref_file = \<lparr>file_name = ''a.png'', file_size = 10\<rparr>,
                  previewUrl = Some ''data:image/png;base64''\<rparr>\<rparr>"
        "\<lparr>ref_file = \<lparr>file_name = ''a.png'', file_size = 10\<rparr>,
          previewUrl = Some ''data:image/png;base64''\<rparr>"
        "''data:image/png;base64''"]
    invalid_format_iff_not_one_comma
    [of "(ui initial)\<lparr>referenceImage :=
           Some \<lparr>ref_file = \<lparr>file_name = ''a.png'', file_size = 10\<rparr>,
                  previewUrl = Some ''data:image/png;base64,AAAA''\<rparr>\<rparr>"
        "\<lparr>ref_file = \<lparr>file_name = ''a.png'', file_size = 10\<rparr>,
          previewUrl = Some ''data:image/png;base64,AAAA''\<rparr>"
        "''data:image/png;base64,AAAA''"]
  by simp

text \<open>
  Claim C3 as the specification words it fails: split at its first comma, the URL below
  gives exactly two parts, a header and the rest, and yet \<open>handleGenerateClick\<close> ends with
  the error \<open>Invalid image data URL format.\<close>, the URL having a second comma.
\<close>

theorem second_comma_counterexample:
  "length (spec_split_first_comma ''data:image/png;base64,AA,BB'') = 2
   \<and> handleGenerateClick
       ((ui initial)\<lparr>referenceImage :=
          Some \<lparr>ref_file = \<lparr>file_name = ''a.png'', file_size = 10\<rparr>,
                 previewUrl = Some ''data:image/png;base64,AA,BB''\<rparr>\<rparr>)
     = ([SetIsLoading True, SetError None, SetGeneratedImage None,
         SetError (Some ''Invalid image data URL format.''), SetIsLoading False], None)"
  by (simp add: spec_split_first_comma_def handleGenerateClick_def parse_previewUrl_def
      message_of_def)

section \<open>Properties of the page\<close>

text \<open>What each handler does to the fields.\<close>

lemma handleImageChange_keeps:
  "isLoading (perform (fst (handleImageChange fs)) s) = isLoading s"
  "generatedImage (perform (fst (handleImageChange fs)) s) = generatedImage s"
  by (simp_all add: handleImageChange_def split: list.splits)

lemma handleImageChange_effects:
  "fst (handleImageChange fs) = []
   \<or> fst (handleImageChange fs)
       = [SetError (Some ''File is too large. Please upload an image under 4MB.'')]"
  by (simp add: handleImageChange_def split: list.splits)

lemma click_effects:
  assumes "referenceImage s = Some r"
  shows "(snd (handleGenerateClick s) = None \<and>
          (\<exists>m. fst (handleGenerateClick s)
                 = [SetIsLoading True, SetError None, SetGeneratedImage None,
                    SetError (Some m), SetIsLoading False]))
       \<or> (\<exists>call. snd (handleGenerateClick s) = Some call \<and>
            fst (handleGenerateClick s) = [SetIsLoading True, SetError None, SetGeneratedImage None])"
  using assms by (auto simp: handleGenerateClick_def split: sum.splits prod.splits)

lemma resume_effects:
  "(\<exists>d. handleGenerateClick_resume x = [SetGeneratedImage (Some d), SetIsLoading False])
   \<or> (\<exists>m. handleGenerateClick_resume x = [SetError (Some m), SetIsLoading False])"
  by (auto simp: handleGenerateClick_resume_def split: sum.splits)

lemma single_inflight:
  "length xs \<le> 1 \<Longrightarrow> x \<in> set xs \<Longrightarrow> xs = [x]"
  by (cases xs) auto

lemma loading_inv_step:
  assumes "loading_inv c" and "step e c = Some c'"
  shows "loading_inv c'"
proof (cases e)
  case (EditPrompt v)
  with assms show ?thesis by (auto simp: loading_inv_def)
next
  case (SelectFiles fs)
  with assms show ?thesis
    by (auto simp: loading_inv_def handleImageChange_keeps split: if_splits)
next
  case (ReaderLoaded f url)
  with assms show ?thesis by (auto simp: loading_inv_def onloadend_def split: if_splits)
next
  case (ReaderFailed f)
  with assms show ?thesis
    by (auto simp: loading_inv_def onloadend_def onerror_def split: if_splits)
next
  case ClickClear
  with assms show ?thesis
    by (auto simp: loading_inv_def clearReferenceImage_def split: if_splits)
next
  case ClickGenerate
  with assms obtain r where r: "referenceImage (ui c) = Some r" and nl: "\<not> isLoading (ui c)"
    by (auto split: if_splits)
  from assms ClickGenerate r nl have c': "c' = invoke_generate c"
    by simp
  from assms nl have e: "inflight c = []" by (simp add: loading_inv_def)
  from click_effects[OF r] c' e show ?thesis
    by (auto simp: loading_inv_def invoke_generate_def)
next
  case (ClientSettled call outcome)
  with assms have m: "call \<in> set (inflight c)" by (auto split: if_splits)
  with assms have i: "inflight c = [call]" by (simp add: loading_inv_def single_inflight)
  from assms ClientSettled m
  have c': "c' = react (handleGenerateClick_resume
                 (editImageWithReference (\<lambda>_. outcome)
                   (arg_prompt call) (arg_base64ImageData call) (arg_mimeType call)))
               (c\<lparr>inflight := remove1 call (inflight c)\<rparr>)"
    by simp
  from resume_effects[of "editImageWithReference (\<lambda>_. outcome)
                   (arg_prompt call) (arg_base64ImageData call) (arg_mimeType call)"] c' i
  show ?thesis by (auto simp: loading_inv_def)
qed

lemma loading_inv_run:
  "loading_inv c \<Longrightarrow> run evs c = Some c' \<Longrightarrow> loading_inv c'"
proof (induction evs arbitrary: c)
  case Nil
  then show ?case by simp
next
  case (Cons e evs)
  then show ?case by (auto split: option.splits dest: loading_inv_step)
qed

lemma loading_inv_initial: "loading_inv initial"
  by (simp add: loading_inv_def initial_def)

lemma exclusive_inv_step:
  assumes "exclusive_inv c" and "step e c = Some c'"
  shows "exclusive_inv c'"
proof -
  from assms have l: "loading_inv c" by (simp add: exclusive_inv_def)
  then have l': "loading_inv c'" using assms(2) by (rule loading_inv_step)
  show ?thesis
  proof (cases e)
    case (EditPrompt v)
    with assms l' show ?thesis by (auto simp: exclusive_inv_def)
  next
    case (SelectFiles fs)
    with assms l' handleImageChange_effects[of fs] show ?thesis
      by (auto simp: exclusive_inv_def split: if_splits)
  next
    case (ReaderLoaded f url)
    with assms l' show ?thesis by (auto simp: exclusive_inv_def onloadend_def split: if_splits)
  next
    case (ReaderFailed f)
    with assms l' show ?thesis
      by (auto simp: exclusive_inv_def onloadend_def onerror_def split: if_splits)
  next
    case ClickClear
    with assms l' show ?thesis
      by (auto simp: exclusive_inv_def clearReferenceImage_def split: if_splits)
  next
    case ClickGenerate
    with assms obtain r where r: "referenceImage (ui c) = Some r"
      by (auto split: if_splits)
    from assms ClickGenerate r
    have c': "ui c' = render_ref (perform (fst (handleGenerateClick (ui c))) (ui c))"
      by (auto simp: invoke_generate_def split: if_splits)
    from click_effects[OF r] c' l' show ?thesis
      by (auto simp: exclusive_inv_def loading_inv_def)
  next
    case (ClientSettled call outcome)
    with assms have m: "call \<in> set (inflight c)" by (auto split: if_splits)
    with assms have q: "generatedImage (ui c) = None"
      "error (ui c) = None
       \<or> error (ui c) = Some ''File is too large. Please upload an image under 4MB.''"
      by (auto simp: exclusive_inv_def)
    from assms ClientSettled m
    have c': "ui c' = render_ref (perform (handleGenerateClick_resume
                 (editImageWithReference (\<lambda>_. outcome)
                   (arg_prompt call) (arg_base64ImageData call) (arg_mimeType call))) (ui c))"
      by auto
    from m l have i: "inflight c = [call]" by (simp add: loading_inv_def single_inflight)
    from assms ClientSettled m i have i': "inflight c' = []" by auto
    from resume_effects[of "editImageWithReference (\<lambda>_. outcome)
                   (arg_prompt call) (arg_base64ImageData call) (arg_mimeType call)"] c' q l' i'
    show ?thesis by (auto simp: exclusive_inv_def)
  qed
qed

lemma exclusive_inv_run:
  "exclusive_inv c \<Longrightarrow> run evs c = Some c' \<Longrightarrow> exclusive_inv c'"
proof (induction evs arbitrary: c)
  case Nil
  then show ?case by simp
next
  case (Cons e evs)
  then show ?case by (auto split: option.splits dest: exclusive_inv_step)
qed

lemma exclusive_inv_initial: "exclusive_inv initial"
  by (simp add: exclusive_inv_def loading_inv_def initial_def)

lemmas eval_defs = initial_def react_def render_ref_def handleImageChange_def onloadend_def
  onerror_def handleGenerateClick_def parse_previewUrl_def line_terminator_def
  handleGenerateClick_resume_def editImageWithReference_def try_block_def
  first_candidate_image_def truthy_def clearReferenceImage_def message_of_def
  invoke_generate_def

text \<open>
  Claim C1, as the code has it: in every state the page reaches, the error and the
  generated result are not both set, unless the error is the message of a file above
  4 MiB, \<open>File is too large. Please upload an image under 4MB.\<close>
\<close>

theorem error_and_result_exclusive_unless_oversize:
  assumes "run evs initial = Some c"
  shows "error (ui c) = None \<or> generatedImage (ui c) = None
       \<or> error (ui c) = Some ''File is too large. Please upload an image under 4MB.''"
  using exclusive_inv_run[OF exclusive_inv_initial assms]
  by (simp add: exclusive_inv_def)

theorem error_and_result_exclusive_unless_oversize_witness:
  "map_option (\<lambda>c. (error (ui c), generatedImage (ui c)))
     (run [SelectFiles [\<lparr>file_name = ''b.png'', file_size = 5000000\<rparr>],
           SelectFiles [\<lparr>file_name = ''a.png'', file_size = 10\<rparr>],
           ReaderLoaded \<lparr>file_name = ''a.png'', file_size = 10\<rparr> ''data:image/png;base64,AAAA'',
           ClickGenerate,
           ClientSettled
             \<lparr>arg_prompt = INITIAL_PROMPT, arg_base64ImageData = ''AAAA'',
                arg_mimeType = ''image/png''\<rparr>
             (Returned \<lparr>candidates = Some [\<lparr>content = Some \<lparr>parts = Some
                [\<lparr>inlineData = Some \<lparr>data = Some ''QUJD'', mimeType = Some ''image/png''\<rparr>,
                  part_text = None\<rparr>]\<rparr>\<rparr>],
                response_text = None\<rparr>)]
        initial)
   = Some (None, Some ''data:image/jpeg;base64,QUJD'')"
proof -
  let ?evs = "[SelectFiles [\<lparr>file_name = ''b.png'', file_size = 5000000\<rparr>],
           SelectFiles [\<lparr>file_name = ''a.png'', file_size = 10\<rparr>],
           ReaderLoaded \<lparr>file_name = ''a.png'', file_size = 10\<rparr> ''data:image/png;base64,AAAA'',
           ClickGenerate,
           ClientSettled
             \<lparr>arg_prompt = INITIAL_PROMPT, arg_base64ImageData = ''AAAA'',
                arg_mimeType = ''image/png''\<rparr>
             (Returned \<lparr>candidates = Some [\<lparr>content = Some \<lparr>parts = Some
                [\<lparr>inlineData = Some \<lparr>data = Some ''QUJD'', mimeType = Some ''image/png''\<rparr>,
                  part_text = None\<rparr>]\<rparr>\<rparr>],
                response_text = None\<rparr>)]"
  have "\<exists>c. run ?evs initial = Some c
          \<and> generatedImage (ui c) = Some ''data:image/jpeg;base64,QUJD''
          \<and> error (ui c) \<noteq> Some ''File is too large. Please upload an image under 4MB.''"
    by (simp add: eval_defs)
  then obtain c where r: "run ?evs initial = Some c"
    and g: "generatedImage (ui c) = Some ''data:image/jpeg;base64,QUJD''"
    and n: "error (ui c) \<noteq> Some ''File is too large. Please upload an image under 4MB.''"
    by blast
  from error_and_result_exclusive_unless_oversize [OF r] g n
  have "error (ui c) = None" by simp
  with r g show ?thesis by simp
qed

text \<open>
  Claim C1 as the specification words it fails. A file is selected and read, an image is
  generated, the reference image is cleared, and a file of 5000000 bytes is selected:
  \<open>handleImageChange\<close> sets the error and leaves the generated result, so both are
  non-empty in the state reached.
\<close>

theorem oversize_after_result_counterexample:
  "run [SelectFiles [\<lparr>file_name = ''a.png'', file_size = 10\<rparr>],
        ReaderLoaded \<lparr>file_name = ''a.png'', file_size = 10\<rparr> ''data:image/png;base64,AAAA'',
        ClickGenerate,
        ClientSettled
          \<lparr>arg_prompt = INITIAL_PROMPT, arg_base64ImageData = ''AAAA'',
             arg_mimeType = ''image/png''\<rparr>
          (Returned \<lparr>candidates = Some [\<lparr>content = Some \<lparr>parts = Some
             [\<lparr>inlineData = Some \<lparr>data = Some ''QUJD'', mimeType = Some ''image/png''\<rparr>,
               part_text = None\<rparr>]\<rparr>\<rparr>],
             response_text = None\<rparr>),
        ClickClear,
        SelectFiles [\<lparr>file_name = ''b.png'', file_size = 5000000\<rparr>]]
     initial
   = Some \<lparr>ui = \<lparr>prompt = INITIAL_PROMPT, referenceImage = None,
                   generatedImage = Some ''data:image/jpeg;base64,QUJD'',
                   isLoading = False,
                   error = Some ''File is too large. Please upload an image under 4MB.'',
                   fileInputRef = Some [\<lparr>file_name = ''b.png'', file_size = 5000000\<rparr>]\<rparr>,
             readers = [], inflight = []\<rparr>
   \<and> truthy (Some ''File is too large. Please upload an image under 4MB.'')
   \<and> truthy (Some ''data:image/jpeg;base64,QUJD'')"
  by (simp add: eval_defs)

subsection \<open>The loading flag\<close>

lemma loading_kept_step:
  assumes "isLoading (ui c)" and "\<not> settles e" and "step e c = Some c'"
  shows "isLoading (ui c') \<and> inflight c' = inflight c"
proof (cases e)
  case (EditPrompt v)
  with assms show ?thesis by auto
next
  case (SelectFiles fs)
  with assms show ?thesis by (auto simp: handleImageChange_keeps split: if_splits)
next
  case (ReaderLoaded f url)
  with assms show ?thesis by (auto simp: onloadend_def split: if_splits)
next
  case (ReaderFailed f)
  with assms show ?thesis by (auto simp: onloadend_def onerror_def split: if_splits)
next
  case ClickClear
  with assms show ?thesis by (auto simp: clearReferenceImage_def split: if_splits)
next
  case ClickGenerate
  with assms show ?thesis by simp
next
  case (ClientSettled call outcome)
  with assms show ?thesis by simp
qed

lemma loading_kept_run:
  "isLoading (ui c) \<Longrightarrow> list_all (\<lambda>e. \<not> settles e) evs \<Longrightarrow> run evs c = Some c'
     \<Longrightarrow> isLoading (ui c') \<and> inflight c' = inflight c"
proof (induction evs arbitrary: c)
  case Nil
  then show ?case by simp
next
  case (Cons e evs)
  from Cons.prems obtain c1 where s: "step e c = Some c1" and r: "run evs c1 = Some c'"
    by (auto split: option.splits)
  from Cons.prems s have k: "isLoading (ui c1) \<and> inflight c1 = inflight c"
    using loading_kept_step[of c e c1] by simp
  with Cons.IH[of c1] Cons.prems r show ?case by simp
qed

lemma resume_not_loading:
  "\<not> isLoading (perform (handleGenerateClick_resume x) s)"
  using resume_effects[of x] by auto

text \<open>
  Claim C8, as the code has it. Take a state the page has reached and a click on the
  generate button while it is enabled: a reference image is present and the loading flag
  is false.
  \<^item> When the parse of the data URL fails, the handler runs to its end within the click
    and no call of the client is pending: the loading flag is false before the click and
    false after it, the two calls of its setter being in one batch.
  \<^item> Otherwise the handler leaves a call of the client pending: the loading flag is true
    after the click, stays true through every sequence of events that does not settle
    the call, and, however the call settles (a payload, an error of the client, a
    rejection of the service), the handler resumes and the flag is false after it.
\<close>

theorem loading_while_call_pending:
  assumes "run evs initial = Some c" and "step ClickGenerate c = Some c1"
  shows "(snd (handleGenerateClick (ui c)) = None \<longrightarrow>
            \<not> isLoading (ui c) \<and> \<not> isLoading (ui c1) \<and> inflight c1 = [])
       \<and> (\<forall>call. snd (handleGenerateClick (ui c)) = Some call \<longrightarrow>
            isLoading (ui c1)
          \<and> (\<forall>evs' c2. run evs' c1 = Some c2 \<and> list_all (\<lambda>e. \<not> settles e) evs' \<longrightarrow>
                isLoading (ui c2)
              \<and> (\<forall>outcome. \<exists>c3.
                    step (ClientSettled call outcome) c2 = Some c3
                  \<and> \<not> isLoading (ui c3) \<and> inflight c3 = [])))"
proof -
  from assms(2) obtain r where r: "referenceImage (ui c) = Some r" and nl: "\<not> isLoading (ui c)"
    by (auto split: if_splits)
  have inv: "loading_inv c"
    using loading_inv_run[OF loading_inv_initial assms(1)] .
  with nl have e: "inflight c = []" by (simp add: loading_inv_def)
  from assms(2) r nl have c1: "c1 = invoke_generate c"
    by simp
  have local: "\<not> isLoading (ui c) \<and> \<not> isLoading (ui c1) \<and> inflight c1 = []"
    if "snd (handleGenerateClick (ui c)) = None"
    using that click_effects[OF r] c1 e nl by (auto simp: invoke_generate_def)
  have pending: "isLoading (ui c1)
          \<and> (\<forall>evs' c2. run evs' c1 = Some c2 \<and> list_all (\<lambda>e. \<not> settles e) evs' \<longrightarrow>
                isLoading (ui c2)
              \<and> (\<forall>outcome. \<exists>c3.
                    step (ClientSettled call outcome) c2 = Some c3
                  \<and> \<not> isLoading (ui c3) \<and> inflight c3 = []))"
    if call: "snd (handleGenerateClick (ui c)) = Some call" for call
  proof -
    from call click_effects[OF r]
    have es: "fst (handleGenerateClick (ui c))
                = [SetIsLoading True, SetError None, SetGeneratedImage None]"
      by auto
    from es c1 have l1: "isLoading (ui c1)" by (simp add: invoke_generate_def)
    from call c1 e have i1: "inflight c1 = [call]" by (simp add: invoke_generate_def)
    have during: "isLoading (ui c2)
              \<and> (\<forall>outcome. \<exists>c3.
                    step (ClientSettled call outcome) c2 = Some c3
                  \<and> \<not> isLoading (ui c3) \<and> inflight c3 = [])"
      if run': "run evs' c1 = Some c2" and ns: "list_all (\<lambda>e. \<not> settles e) evs'" for evs' c2
    proof -
      from loading_kept_run[OF l1 ns run'] i1
      have l2: "isLoading (ui c2)" and i2: "inflight c2 = [call]" by simp_all
      have "\<exists>c3. step (ClientSettled call outcome) c2 = Some c3
                  \<and> \<not> isLoading (ui c3) \<and> inflight c3 = []" for outcome
        using i2 by (simp add: resume_not_loading)
      with l2 show ?thesis by blast
    qed
    from l1 during show ?thesis by blast
  qed
  from local pending show ?thesis by blast
qed

theorem loading_while_call_pending_witness:
  "(\<exists>c c1 c2 c3.
      run [SelectFiles [\<lparr>file_name = ''a.png'', file_size = 10\<rparr>],
           ReaderLoaded \<lparr>file_name = ''a.png'', file_size = 10\<rparr> ''data:image/png;base64,AAAA'']
        initial = Some c
    \<and> step ClickGenerate c = Some c1
    \<and> isLoading (ui c1)
    \<and> run [EditPrompt ''a portrait'', ClickClear] c1 = Some c2
    \<and> isLoading (ui c2)
    \<and> step (ClientSettled
               \<lparr>arg_prompt = INITIAL_PROMPT, arg_base64ImageData = ''AAAA'',
                  arg_mimeType = ''image/png''\<rparr>
               (Threw (Error ''quota exceeded''))) c2 = Some c3
    \<and> \<not> isLoading (ui c3))
   \<and> (\<exists>c c1.
      run [SelectFiles [\<lparr>file_name = ''a.png'', file_size = 10\<rparr>],
           ReaderLoaded \<lparr>file_name = ''a.png'', file_size = 10\<rparr> ''data:image/png;base64'']
        initial = Some c
    \<and> step ClickGenerate c = Some c1
    \<and> snd (handleGenerateClick (ui c)) = None
    \<and> \<not> isLoading (ui c)
    \<and> \<not> isLoading (ui c1))"
proof -
  let ?call = "\<lparr>arg_prompt = INITIAL_PROMPT, arg_base64ImageData = ''AAAA'',
                 arg_mimeType = ''image/png''\<rparr>"
  have "\<exists>c c1 c2.
      run [SelectFiles [\<lparr>file_name = ''a.png'', file_size = 10\<rparr>],
           ReaderLoaded \<lparr>file_name = ''a.png'', file_size = 10\<rparr> ''data:image/png;base64,AAAA'']
        initial = Some c
    \<and> snd (handleGenerateClick (ui c)) = Some ?call
    \<and> step ClickGenerate c = Some c1
    \<and> run [EditPrompt ''a portrait'', ClickClear] c1 = Some c2"
    by (simp add: eval_defs)
  then obtain c c1 c2 where rc: "run [SelectFiles [\<lparr>file_name = ''a.png'', file_size = 10\<rparr>],
           ReaderLoaded \<lparr>file_name = ''a.png'', file_size = 10\<rparr> ''data:image/png;base64,AAAA'']
        initial = Some c"
    and call: "snd (handleGenerateClick (ui c)) = Some ?call"
    and st: "step ClickGenerate c = Some c1"
    and r2: "run [EditPrompt ''a portrait'', ClickClear] c1 = Some c2"
    by blast
  have ns: "list_all (\<lambda>e. \<not> settles e) [EditPrompt ''a portrait'', ClickClear]"
    by simp
  from loading_while_call_pending [OF rc st] call r2 ns
  have "isLoading (ui c1)" and "isLoading (ui c2)"
    and "\<exists>c3. step (ClientSettled ?call (Threw (Error ''quota exceeded''))) c2 = Some c3
            \<and> \<not> isLoading (ui c3)"
    by blast+
  with rc st r2 have pending: "\<exists>c c1 c2 c3.
      run [SelectFiles [\<lparr>file_name = ''a.png'', file_size = 10\<rparr>],
           ReaderLoaded \<lparr>file_name = ''a.png'', file_size = 10\<rparr> ''data:image/png;base64,AAAA'']
        initial = Some c
    \<and> step ClickGenerate c = Some c1
    \<and> isLoading (ui c1)
    \<and> run [EditPrompt ''a portrait'', ClickClear] c1 = Some c2
    \<and> isLoading (ui c2)
    \<and> step (ClientSettled ?call (Threw (Error ''quota exceeded''))) c2 = Some c3
    \<and> \<not> isLoading (ui c3)"
    by blast
  have "\<exists>d d1.
      run [SelectFiles [\<lparr>file_name = ''a.png'', file_size = 10\<rparr>],
           ReaderLoaded \<lparr>file_name = ''a.png'', file_size = 10\<rparr> ''data:image/png;base64'']
        initial = Some d
    \<and> snd (handleGenerateClick (ui d)) = None
    \<and> step ClickGenerate d = Some d1"
    by (simp add: eval_defs)
  then obtain d d1 where rd: "run [SelectFiles [\<lparr>file_name = ''a.png'', file_size = 10\<rparr>],
           ReaderLoaded \<lparr>file_name = ''a.png'', file_size = 10\<rparr> ''data:image/png;base64'']
        initial = Some d"
    and none: "snd (handleGenerateClick (ui d)) = None"
    and sd: "step ClickGenerate d = Some d1"
    by blast
  from loading_while_call_pending [OF rd sd] none
  have "\<not> isLoading (ui d)" and "\<not> isLoading (ui d1)"
    by blast+
  with rd sd none have local: "\<exists>c c1.
      run [SelectFiles [\<lparr>file_name = ''a.png'', file_size = 10\<rparr>],
           ReaderLoaded \<lparr>file_name = ''a.png'', file_size = 10\<rparr> ''data:image/png;base64'']
        initial = Some c
    \<and> step ClickGenerate c = Some c1
    \<and> snd (handleGenerateClick (ui c)) = None
    \<and> \<not> isLoading (ui c)
    \<and> \<not> isLoading (ui c1)"
    by blast
  from pending local show ?thesis by blast
qed

text \<open>
  Claim C8 as the specification words it fails, in two ways.

  On the path of a local parsing failure the flag is never true. With the data URL
  \<open>data:image/png;base64\<close>, which has no comma, stored, the click on the enabled button
  runs the five setter calls of the handler in one batch: the loading flag is false in
  the state before the click and in the state after it, where the error is stored and
  the operation is over.

  The claim names the presence of a reference image as the only precondition, and the
  flag is not kept by that alone. The button is disabled while the flag is set; when the
  handler is run all the same while a call is pending, the first call to settle clears
  the flag and the other call is still pending.
\<close>

theorem never_loading_counterexample:
  "run [SelectFiles [\<lparr>file_name = ''a.png'', file_size = 10\<rparr>],
        ReaderLoaded \<lparr>file_name = ''a.png'', file_size = 10\<rparr> ''data:image/png;base64'']
     initial
   = Some \<lparr>ui = \<lparr>prompt = INITIAL_PROMPT,
                   referenceImage =
                     Some \<lparr>ref_file = \<lparr>file_name = ''a.png'', file_size = 10\<rparr>,
                            previewUrl = Some ''data:image/png;base64''\<rparr>,
                   generatedImage = None, isLoading = False, error = None,
                   fileInputRef = None\<rparr>,
             readers = [], inflight = []\<rparr>
   \<and> handleGenerateClick
       \<lparr>prompt = INITIAL_PROMPT,
          referenceImage =
            Some \<lparr>ref_file = \<lparr>file_name = ''a.png'', file_size = 10\<rparr>,
                   previewUrl = Some ''data:image/png;base64''\<rparr>,
          generatedImage = None, isLoading = False, error = None,
          fileInputRef = None\<rparr>
     = ([SetIsLoading True, SetError None, SetGeneratedImage None,
         SetError (Some ''Invalid image data URL format.''), SetIsLoading False], None)
   \<and> run [SelectFiles [\<lparr>file_name = ''a.png'', file_size = 10\<rparr>],
          ReaderLoaded \<lparr>file_name = ''a.png'', file_size = 10\<rparr> ''data:image/png;base64'',
          ClickGenerate]
       initial
     = Some \<lparr>ui = \<lparr>prompt = INITIAL_PROMPT,
                     referenceImage =
                       Some \<lparr>ref_file = \<lparr>file_name = ''a.png'', file_size = 10\<rparr>,
                              previewUrl = Some ''data:image/png;base64''\<rparr>,
                     generatedImage = None, isLoading = False,
                     error = Some ''Invalid image data URL format.'',
                     fileInputRef = None\<rparr>,
               readers = [], inflight = []\<rparr>
   \<and> run [SelectFiles [\<lparr>file_name = ''a.png'', file_size = 10\<rparr>],
          ReaderLoaded \<lparr>file_name = ''a.png'', file_size = 10\<rparr> ''data:image/png;base64,AAAA'',
          ClickGenerate]
       initial
     = Some \<lparr>ui = \<lparr>prompt = INITIAL_PROMPT,
                     referenceImage =
                       Some \<lparr>ref_file = \<lparr>file_name = ''a.png'', file_size = 10\<rparr>,
                              previewUrl = Some ''data:image/png;base64,AAAA''\<rparr>,
                     generatedImage = None, isLoading = True, error = None,
                     fileInputRef = None\<rparr>,
               readers = [],
               inflight = [\<lparr>arg_prompt = INITIAL_PROMPT, arg_base64ImageData = ''AAAA'',
                             arg_mimeType = ''image/png''\<rparr>]\<rparr>
   \<and> step (ClientSettled
             \<lparr>arg_prompt = INITIAL_PROMPT, arg_base64ImageData = ''AAAA'',
                arg_mimeType = ''image/png''\<rparr>
             (Threw (Error ''quota exceeded'')))
        (invoke_generate
          \<lparr>ui = \<lparr>prompt = INITIAL_PROMPT,
                   referenceImage =
                     Some \<lparr>ref_file = \<lparr>file_name = ''a.png'', file_size = 10\<rparr>,
                            previewUrl = Some ''data:image/png;base64,AAAA''\<rparr>,
                   generatedImage = None, isLoading = True, error = None,
                   fileInputRef = None\<rparr>,
             readers = [],
             inflight = [\<lparr>arg_prompt = INITIAL_PROMPT, arg_base64ImageData = ''AAAA'',
                           arg_mimeType = ''image/png''\<rparr>]\<rparr>)
     = Some \<lparr>ui = \<lparr>prompt = INITIAL_PROMPT,
                     referenceImage =
                       Some \<lparr>ref_file = \<lparr>file_name = ''a.png'', file_size = 10\<rparr>,
                              previewUrl = Some ''data:image/png;base64,AAAA''\<rparr>,
                     generatedImage = None, isLoading = False,
                     error = Some ''Gemini API Error: quota exceeded'',
                     fileInputRef = None\<rparr>,
               readers = [],
               inflight = [\<lparr>arg_prompt = INITIAL_PROMPT, arg_base64ImageData = ''AAAA'',
                             arg_mimeType = ''image/png''\<rparr>]\<rparr>"
  by (simp add: eval_defs)

end
